theory Spec2Isabelle
  imports Main "HOL-Library.Word"
begin

unbundle bit_operations_syntax

section \<open>Integer arithmetic of the target\<close>

text \<open>
  The driver computes on \<open>uint8_t\<close> operands, which C++ promotes to \<open>int\<close> before
  every shift, \<open>|\<close> and \<open>*\<close>. The sources do not fix the width of \<open>int\<close> (it
  belongs to the board the sketch is built for: 16 bits on AVR, 32 bits on Arm), so the
  model takes the width \<open>ib\<close> as a parameter. The promoted operations are written on
  \<open>int\<close> with their ranges checked: where C++ leaves the result undefined (a shift
  count that is negative or not smaller than the width, a signed product that does not
  fit) the model yields a \<open>fault\<close> instead of a number. A member function that
  meets such an operation stops there: its result is the fault together with the bus
  as the calls made before it have left it.
\<close>

datatype fault = ShiftOutOfRange | SignedOverflow

definition int_shl :: "nat \<Rightarrow> int \<Rightarrow> int \<Rightarrow> fault + int" where
  \<comment> \<open>\<open>a << n\<close> on \<open>int\<close>: defined for a non-negative \<open>a\<close> and \<open>0 \<le> n < ib\<close>
      when \<open>a * 2^n\<close> fits the unsigned type of that width; the value is then
      converted to \<open>int\<close>.\<close>
  "int_shl ib a n =
     (if n < 0 \<or> int ib \<le> n \<or> a < 0 \<or> 2 ^ ib \<le> a * 2 ^ nat n then Inl ShiftOutOfRange
      else Inr (signed_take_bit (ib - 1) (a * 2 ^ nat n)))"

definition int_shr :: "nat \<Rightarrow> int \<Rightarrow> int \<Rightarrow> fault + int" where
  \<comment> \<open>\<open>a >> n\<close> on \<open>int\<close>: defined for \<open>0 \<le> n < ib\<close>; the quotient is truncated
      (an arithmetic shift, which rounds down).\<close>
  "int_shr ib a n =
     (if n < 0 \<or> int ib \<le> n then Inl ShiftOutOfRange else Inr (a div 2 ^ nat n))"

definition int_mul :: "nat \<Rightarrow> int \<Rightarrow> int \<Rightarrow> fault + int" where
  \<comment> \<open>\<open>a * b\<close> on \<open>int\<close>: defined when the product fits.\<close>
  "int_mul ib a b =
     (if a * b < - (2 ^ (ib - 1)) \<or> 2 ^ (ib - 1) \<le> a * b then Inl SignedOverflow
      else Inr (a * b))"

section \<open>The two-wire bus and the serial console\<close>

text \<open>
  \<open>Wire\<close> and \<open>Serial\<close> are objects of the Arduino core, outside the repository. The
  model keeps what the driver can observe of them: the calls it makes, in order
  (\<open>trace\<close>), the receive buffer that \<open>requestFrom\<close> fills and \<open>read\<close> consumes
  (\<open>rx\<close>), and the answers the devices on the bus will give to the coming requests
  (\<open>replies\<close>, one list of bytes for each \<open>requestFrom\<close>; the environment chooses
  them freely). As in the core, \<open>requestFrom\<close> keeps at most the requested number of
  bytes, \<open>available\<close> is the number of bytes left in the buffer and \<open>read\<close> on an
  empty buffer returns \<open>-1\<close>.
\<close>

datatype io_event =
    WireBegin
  | BeginTransmission "8 word"
  | WireWrite "8 word"
  | EndTransmission
  | RequestFrom "8 word" nat
  | WireRead
  | SerialPrintln string

record io =
  trace :: "io_event list"
  rx :: "8 word list"
  replies :: "8 word list list"

definition emit :: "io_event \<Rightarrow> io \<Rightarrow> io" where
  "emit e w = w\<lparr>trace := trace w @ [e]\<rparr>"

definition wire_begin :: "io \<Rightarrow> io" where
  "wire_begin w = emit WireBegin w"

definition wire_beginTransmission :: "int \<Rightarrow> io \<Rightarrow> io" where
  "wire_beginTransmission address w = emit (BeginTransmission (word_of_int address)) w"

definition wire_write :: "int \<Rightarrow> io \<Rightarrow> io" where
  \<comment> \<open>\<open>write(int)\<close> sends the argument converted to \<open>uint8_t\<close>.\<close>
  "wire_write n w = emit (WireWrite (word_of_int n)) w"

definition wire_endTransmission :: "io \<Rightarrow> io" where
  "wire_endTransmission w = emit EndTransmission w"

definition wire_requestFrom :: "int \<Rightarrow> nat \<Rightarrow> io \<Rightarrow> io" where
  "wire_requestFrom address quantity w =
     (case replies w of
        [] \<Rightarrow> (emit (RequestFrom (word_of_int address) quantity) w)\<lparr>rx := []\<rparr>
      | r # rs \<Rightarrow>
          (emit (RequestFrom (word_of_int address) quantity) w)
            \<lparr>rx := take quantity r, replies := rs\<rparr>)"

definition wire_available :: "io \<Rightarrow> int" where
  "wire_available w = int (length (rx w))"

definition wire_read :: "io \<Rightarrow> int \<times> io" where
  "wire_read w =
     (case rx w of
        [] \<Rightarrow> (- 1, emit WireRead w)
      | b # bs \<Rightarrow> (uint b, (emit WireRead w)\<lparr>rx := bs\<rparr>))"

definition serial_println :: "string \<Rightarrow> io \<Rightarrow> io" where
  "serial_println msg w = emit (SerialPrintln msg) w"

section \<open>Constants of infrared.cpp\<close>

definition MULTIPLEXER_SLAVE_ADDRESS :: int where
  "MULTIPLEXER_SLAVE_ADDRESS = drop_bit 1 0xE0"

definition MULTIPLEXER_CHANNEL_COUNT :: nat where
  "MULTIPLEXER_CHANNEL_COUNT = 4"

definition IR_SLAVE_ADDRESS :: int where
  "IR_SLAVE_ADDRESS = drop_bit 1 0x80"

definition IR_SHIFT_REG_ADDRESS :: int where
  "IR_SHIFT_REG_ADDRESS = 0x35"

definition IR_DISTANCE_REG_ADDRESS :: int where
  "IR_DISTANCE_REG_ADDRESS = 0x5E"

definition MAX_IR_RANGE :: "16 word" where
  "MAX_IR_RANGE = 639"

section \<open>The class Infrared\<close>

text \<open>
  The two private members \<open>_index\<close> and \<open>_shiftValue\<close>, both \<open>uint8_t\<close>, are the
  fields \<open>m_index\<close> and \<open>m_shiftValue\<close> (a name cannot start with an underscore
  here). Every member function takes the object and the bus and returns them, so that
  what it changes can be read off the result.
\<close>

record infrared =
  m_index :: "8 word"
  m_shiftValue :: "8 word"

definition Infrared :: "8 word \<Rightarrow> 8 word \<Rightarrow> infrared" where
  \<comment> \<open>The constructor initialises \<open>_index\<close> only; \<open>_shiftValue\<close> starts with
      whatever its storage holds, here the second argument.\<close>
  "Infrared index0 storage = \<lparr>m_index = index0, m_shiftValue = storage\<rparr>"

definition Infrared_setMultiplexer :: "nat \<Rightarrow> infrared \<Rightarrow> io \<Rightarrow> fault \<times> io + infrared \<times> io" where
  "Infrared_setMultiplexer ib s w =
     (let w1 = wire_beginTransmission MULTIPLEXER_SLAVE_ADDRESS w in
      case int_shl ib 1 (uint (m_index s)) of
        Inl f \<Rightarrow> Inl (f, w1)
      | Inr sel \<Rightarrow> Inr (s, wire_endTransmission (wire_write sel w1)))"

text \<open>
  \<open>setup\<close> tests \<open>!Wire.available()\<close>, prints the notice when no byte has arrived,
  and in either case goes on to the assignment \<open>_shiftValue = Wire.read()\<close>, which
  converts the \<open>int\<close> result to \<open>uint8_t\<close>.
\<close>

definition Infrared_setup :: "nat \<Rightarrow> infrared \<Rightarrow> io \<Rightarrow> fault \<times> io + infrared \<times> io" where
  "Infrared_setup ib s w =
     (case Infrared_setMultiplexer ib s (wire_begin w) of
        Inl e \<Rightarrow> Inl e
      | Inr (s1, w1) \<Rightarrow>
          (let w2 = wire_beginTransmission IR_SLAVE_ADDRESS w1;
               w3 = wire_write IR_SHIFT_REG_ADDRESS w2;
               w4 = wire_endTransmission w3;
               w5 = wire_requestFrom IR_SLAVE_ADDRESS 1 w4;
               w6 = (if wire_available w5 = 0
                     then serial_println ''Wire not available'' w5 else w5);
               (v, w7) = wire_read w6
           in Inr (s1\<lparr>m_shiftValue := word_of_int v\<rparr>, w7)))"

definition distance_mm :: "nat \<Rightarrow> 8 word \<Rightarrow> 8 word \<Rightarrow> 8 word \<Rightarrow> fault + 16 word" where
  \<comment> \<open>\<open>uint16_t distance = (((high << 4) | low) * 10) >> (4 + this->_shiftValue);\<close>\<close>
  "distance_mm ib high low shiftValue =
     (case int_shl ib (uint high) 4 of
        Inl f \<Rightarrow> Inl f
      | Inr hs \<Rightarrow>
          (case int_mul ib (hs OR uint low) 10 of
             Inl f \<Rightarrow> Inl f
           | Inr p \<Rightarrow>
               (case int_shr ib p (4 + uint shiftValue) of
                  Inl f \<Rightarrow> Inl f
                | Inr q \<Rightarrow> Inr (word_of_int q))))"

text \<open>
  \<open>read\<close> returns an \<open>int16_t\<close>, here a \<open>16 word\<close> read as two's complement
  (\<open>sint\<close>), so that \<open>-1\<close> is the word \<open>0xFFFF\<close>. The comparison
  \<open>distance < MAX_IR_RANGE\<close> is between a \<open>uint16_t\<close> and 639 and has the same
  outcome whether it is made in \<open>int\<close> or in \<open>unsigned int\<close>; a distance below 639
  converts to \<open>int16_t\<close> unchanged.
\<close>

definition Infrared_read :: "nat \<Rightarrow> infrared \<Rightarrow> io \<Rightarrow> fault \<times> io + 16 word \<times> infrared \<times> io" where
  "Infrared_read ib s w =
     (case Infrared_setMultiplexer ib s w of
        Inl e \<Rightarrow> Inl e
      | Inr (s1, w1) \<Rightarrow>
          (let w2 = wire_beginTransmission IR_SLAVE_ADDRESS w1;
               w3 = wire_write IR_DISTANCE_REG_ADDRESS w2;
               w4 = wire_endTransmission w3;
               w5 = wire_requestFrom IR_SLAVE_ADDRESS 2 w4
           in if wire_available w5 < 2
              then Inr (- 1, s1, serial_println ''Wire not available'' w5)
              else
                (let (h, w6) = wire_read w5;
                     high = (word_of_int h :: 8 word);
                     (l, w7) = wire_read w6;
                     low = (word_of_int l :: 8 word)
                 in case distance_mm ib high low (m_shiftValue s1) of
                      Inl f \<Rightarrow> Inl (f, w7)
                    | Inr distance \<Rightarrow>
                        Inr (if distance < MAX_IR_RANGE then distance else - 1, s1, w7))))"


section \<open>Notions used in the statements\<close>

text \<open>
  \<open>next_reply w\<close> is the answer the bus will give to the next \<open>requestFrom\<close>: the
  head of \<open>replies w\<close>, or no byte at all when no device answers.
\<close>

definition next_reply :: "io \<Rightarrow> 8 word list" where
  "next_reply w = (case replies w of [] \<Rightarrow> [] | r # _ \<Rightarrow> r)"

text \<open>
  \<open>bus_after r\<close> is the bus as a call of \<open>read\<close> with the outcome \<open>r\<close> leaves it,
  whether the call returned or met an undefined operation.
\<close>

definition bus_after :: "fault \<times> io + 16 word \<times> infrared \<times> io \<Rightarrow> io" where
  "bus_after r = (case r of Inl (f, w') \<Rightarrow> w' | Inr (ret, s', w') \<Rightarrow> w')"

text \<open>
  The formula of the data sheet, as the comment above the computation quotes it:
  \<open>distance(cm) = (high * 16 + low) / 16 / 2^shift\<close>, here in millimetres and on
  unbounded integers, truncated.
\<close>

definition reference_distance_mm :: "int \<Rightarrow> int \<Rightarrow> nat \<Rightarrow> int" where
  "reference_distance_mm high low shift = ((high * 16 + low) * 10) div (16 * 2 ^ shift)"

section \<open>Arithmetic of the decode step\<close>

text \<open>
  The raw value \<open>(high << 4) | low\<close> is below \<open>2^12\<close>, so on an \<open>int\<close> of at least
  17 bits neither the left shift nor the product can overflow, and the decode step is
  defined exactly when its shift count \<open>4 + _shiftValue\<close> is smaller than the width.
\<close>

lemma pow_mono_int: "m \<le> n \<Longrightarrow> (2::int) ^ m \<le> 2 ^ n"
  by (rule power_increasing) simp_all

lemma raw12_nonneg: "0 \<le> push_bit 4 (uint (high :: 8 word)) OR uint (low :: 8 word)"
  by simp

lemma raw12_less: "push_bit 4 (uint (high :: 8 word)) OR uint (low :: 8 word) < 4096"
proof -
  have h: "uint high < 256" using uint_bounded [of high] by simp
  have l: "uint low < 256" using uint_bounded [of low] by simp
  have a: "push_bit 4 (uint high) < 2 ^ 12" using h by (simp add: push_bit_eq_mult)
  have b: "uint low < 2 ^ 12" using l by simp
  have c: "0 \<le> push_bit 4 (uint high)" by simp
  have "push_bit 4 (uint high) OR uint low < 2 ^ 12" by (rule OR_upper [OF c a b])
  then show ?thesis by simp
qed

lemma or_low_nibble:
  assumes "uint (low :: 8 word) \<le> 15"
  shows "push_bit 4 (uint (high :: 8 word)) OR uint low = uint high * 16 + uint low"
proof -
  have "uint low < 2 ^ 4" using assms by simp
  then have t: "take_bit 4 (uint low) = uint low" by (simp add: take_bit_int_eq_self)
  have "concat_bit 4 (uint low) (uint high) = take_bit 4 (uint low) + push_bit 4 (uint high)"
    by (rule concat_bit_eq)
  moreover have "concat_bit 4 (uint low) (uint high) = take_bit 4 (uint low) OR push_bit 4 (uint high)"
    by (simp add: concat_bit_def)
  ultimately have "take_bit 4 (uint low) OR push_bit 4 (uint high) = take_bit 4 (uint low) + push_bit 4 (uint high)"
    by simp
  then have "uint low OR push_bit 4 (uint high) = uint low + push_bit 4 (uint high)"
    by (simp only: t)
  then show ?thesis by (simp add: push_bit_eq_mult or.commute)
qed

lemma int_shl_small:
  assumes "0 \<le> a" and "a * 2 ^ n < 2 ^ m" and "m < ib" and "n \<le> m"
  shows "int_shl ib a (int n) = Inr (push_bit n a)"
proof -
  have le: "(2::int) ^ m \<le> 2 ^ (ib - 1)" using assms(3) by (intro pow_mono_int) simp
  have le': "(2::int) ^ (ib - 1) \<le> 2 ^ ib" by (intro pow_mono_int) simp
  have lt: "a * 2 ^ n < 2 ^ (ib - 1)" using assms(2) le by linarith
  have nn: "0 \<le> a * 2 ^ n" using assms(1) by simp
  have "signed_take_bit (ib - 1) (a * 2 ^ n) = a * 2 ^ n"
    using lt nn by (intro signed_take_bit_int_eq_self) simp_all
  moreover have "\<not> 2 ^ ib \<le> a * 2 ^ n" using lt le' by linarith
  moreover have "\<not> int ib \<le> int n" using assms(3,4) by simp
  ultimately show ?thesis using assms(1) by (simp add: int_shl_def push_bit_eq_mult)
qed

lemma int_mul_small:
  assumes "0 \<le> a * b" and "a * b < 2 ^ (ib - 1)"
  shows "int_mul ib a b = Inr (a * b)"
proof -
  have "- (2 ^ (ib - 1)) \<le> (0::int)" by simp
  then show ?thesis using assms by (simp add: int_mul_def)
qed

lemma int_shr_small:
  assumes "n < ib"
  shows "int_shr ib a (int n) = Inr (drop_bit n a)"
  using assms by (simp add: int_shr_def drop_bit_eq_div)

lemma int_shr_fault:
  assumes "ib \<le> n"
  shows "int_shr ib a (int n) = Inl ShiftOutOfRange"
  using assms by (simp add: int_shr_def)

lemma product_fits:
  assumes "17 \<le> ib"
  shows "(push_bit 4 (uint (high :: 8 word)) OR uint (low :: 8 word)) * 10 < 2 ^ (ib - 1)"
proof -
  have "(push_bit 4 (uint high) OR uint low) * 10 < 2 ^ 16"
    using raw12_less [of high low] by simp
  moreover have "(2::int) ^ 16 \<le> 2 ^ (ib - 1)" using assms by (intro pow_mono_int) simp
  ultimately show ?thesis by linarith
qed

lemma quotient_bounds:
  "0 \<le> ((push_bit 4 (uint (high :: 8 word)) OR uint (low :: 8 word)) * 10) div 2 ^ n"
  "((push_bit 4 (uint (high :: 8 word)) OR uint (low :: 8 word)) * 10) div 2 ^ n < 2 ^ 16"
proof -
  let ?p = "(push_bit 4 (uint high) OR uint low) * 10"
  have nn: "0 \<le> ?p" using raw12_nonneg [of high low] by simp
  have lt: "?p < 2 ^ 16" using raw12_less [of high low] by simp
  show "0 \<le> ?p div 2 ^ n" using nn by (simp add: pos_imp_zdiv_nonneg_iff)
  have "?p div 2 ^ n \<le> ?p div 1" using nn by (intro zdiv_mono2) simp_all
  then have "?p div 2 ^ n \<le> ?p" by simp
  then show "?p div 2 ^ n < 2 ^ 16" using lt by linarith
qed

lemma uint_quotient:
  "uint (word_of_int (((push_bit 4 (uint (high :: 8 word)) OR uint (low :: 8 word)) * 10) div 2 ^ n) :: 16 word)
   = ((push_bit 4 (uint high) OR uint low) * 10) div 2 ^ n"
proof -
  let ?q = "((push_bit 4 (uint high) OR uint low) * 10) div 2 ^ n"
  have "0 \<le> ?q" "?q < 2 ^ 16" by (rule quotient_bounds)+
  then have "take_bit 16 ?q = ?q" by (simp add: take_bit_int_eq_self)
  then show ?thesis by (simp add: uint_word_of_int_eq)
qed

lemma distance_mm_defined:
  assumes ib: "12 < ib"
    and fits: "(push_bit 4 (uint high) OR uint low) * 10 < 2 ^ (ib - 1)"
    and sh: "4 + unat shiftValue < ib"
  shows "distance_mm ib high low shiftValue =
         Inr (word_of_int (((push_bit 4 (uint high) OR uint low) * 10) div 2 ^ (4 + unat shiftValue)))"
proof -
  have h: "uint high < 256" using uint_bounded [of high] by simp
  have "uint high * 2 ^ 4 < 2 ^ 12" using h by simp
  then have shl: "int_shl ib (uint high) 4 = Inr (push_bit 4 (uint high))"
    using int_shl_small [of "uint high" 4 12 ib] ib by simp
  have nn: "0 \<le> (push_bit 4 (uint high) OR uint low) * 10"
    using raw12_nonneg [of high low] by simp
  have mul: "int_mul ib (push_bit 4 (uint high) OR uint low) 10 =
             Inr ((push_bit 4 (uint high) OR uint low) * 10)"
    by (rule int_mul_small [OF nn fits])
  have cnt: "4 + uint shiftValue = int (4 + unat shiftValue)" by simp
  have shr: "int_shr ib ((push_bit 4 (uint high) OR uint low) * 10) (4 + uint shiftValue) =
             Inr (drop_bit (4 + unat shiftValue) ((push_bit 4 (uint high) OR uint low) * 10))"
    unfolding cnt by (rule int_shr_small [OF sh])
  show ?thesis
    unfolding distance_mm_def shl by (simp only: sum.case mul shr drop_bit_eq_div)
qed

lemma distance_mm_fault:
  assumes ib: "12 < ib"
    and fits: "(push_bit 4 (uint high) OR uint low) * 10 < 2 ^ (ib - 1)"
    and sh: "ib \<le> 4 + unat shiftValue"
  shows "distance_mm ib high low shiftValue = Inl ShiftOutOfRange"
proof -
  have h: "uint high < 256" using uint_bounded [of high] by simp
  have "uint high * 2 ^ 4 < 2 ^ 12" using h by simp
  then have shl: "int_shl ib (uint high) 4 = Inr (push_bit 4 (uint high))"
    using int_shl_small [of "uint high" 4 12 ib] ib by simp
  have nn: "0 \<le> (push_bit 4 (uint high) OR uint low) * 10"
    using raw12_nonneg [of high low] by simp
  have mul: "int_mul ib (push_bit 4 (uint high) OR uint low) 10 =
             Inr ((push_bit 4 (uint high) OR uint low) * 10)"
    by (rule int_mul_small [OF nn fits])
  have cnt: "4 + uint shiftValue = int (4 + unat shiftValue)" by simp
  have shr: "int_shr ib ((push_bit 4 (uint high) OR uint low) * 10) (4 + uint shiftValue) =
             Inl ShiftOutOfRange"
    unfolding cnt by (rule int_shr_fault [OF sh])
  show ?thesis
    unfolding distance_mm_def shl by (simp only: sum.case mul shr)
qed

lemma distance_mm_value:
  assumes ib: "17 \<le> ib" and sh: "4 + unat shiftValue < ib"
  shows "\<exists>d. distance_mm ib high low shiftValue = Inr d
           \<and> uint d = ((push_bit 4 (uint high) OR uint low) * 10) div 2 ^ (4 + unat shiftValue)"
proof -
  have i: "12 < ib" using ib by simp
  have e: "distance_mm ib high low shiftValue =
     Inr (word_of_int (((push_bit 4 (uint high) OR uint low) * 10) div 2 ^ (4 + unat shiftValue)))"
    by (rule distance_mm_defined [OF i product_fits [OF ib] sh])
  show ?thesis
    by (rule exI [where x = "word_of_int (((push_bit 4 (uint high) OR uint low) * 10) div 2 ^ (4 + unat shiftValue))"])
       (simp only: e uint_quotient simp_thms)
qed

lemma distance_mm_Inr_value:
  assumes ib: "16 \<le> ib" and d: "distance_mm ib high low shiftValue = Inr d"
  shows "uint d = ((push_bit 4 (uint high) OR uint low) * 10) div 2 ^ (4 + unat shiftValue)"
proof -
  have h: "uint high < 256" using uint_bounded [of high] by simp
  have "uint high * 2 ^ 4 < 2 ^ 12" using h by simp
  then have shl: "int_shl ib (uint high) 4 = Inr (push_bit 4 (uint high))"
    using int_shl_small [of "uint high" 4 12 ib] ib by simp
  have cnt: "nat (4 + uint shiftValue) = 4 + unat shiftValue"
    by (simp add: nat_add_distrib)
  from d have "d = word_of_int (((push_bit 4 (uint high) OR uint low) * 10) div 2 ^ (4 + unat shiftValue))"
    unfolding distance_mm_def shl
    by (auto simp: int_mul_def int_shr_def cnt split: if_splits)
  then show ?thesis by (simp only: uint_quotient)
qed

lemma distance_mm_overflow_16: "distance_mm 16 0xFF 0xFF 2 = Inl SignedOverflow"
  by code_simp

lemma sint_small:
  assumes "(r :: 16 word) < 639"
  shows "0 \<le> sint r \<and> sint r \<le> 638"
proof -
  have u: "uint r < 639" using assms by (simp add: word_less_def)
  have "- (2 ^ 15) \<le> (0::int)" by simp
  also have "0 \<le> uint r" by (rule uint_ge_0)
  finally have "- (2 ^ 15) \<le> uint r" .
  moreover have "uint r < 2 ^ 15" using u by simp
  ultimately have "signed_take_bit 15 (uint r) = uint r"
    by (rule signed_take_bit_int_eq_self)
  then have "sint r = uint r" by (simp add: sint_uint)
  then show ?thesis using u by simp
qed

lemma boundary_639:
  assumes "17 \<le> ib"
  shows "distance_mm ib 0xFF 0x0A 2 = Inr 639"
proof -
  have "4 + unat (2 :: 8 word) < ib" using assms by simp
  from distance_mm_defined [OF _ product_fits [OF assms] this, where high = "0xFF" and low = "0x0A"]
  show ?thesis using assms by (simp add: push_bit_eq_mult)
qed

lemma boundary_638:
  assumes "17 \<le> ib"
  shows "distance_mm ib 0xFF 0x09 2 = Inr 638"
proof -
  have "4 + unat (2 :: 8 word) < ib" using assms by simp
  from distance_mm_defined [OF _ product_fits [OF assms] this, where high = "0xFF" and low = "0x09"]
  show ?thesis using assms by (simp add: push_bit_eq_mult)
qed

lemma below_boundary:
  assumes ib: "17 \<le> ib"
    and lt: "push_bit 4 (uint (high :: 8 word)) OR uint (low :: 8 word) < 4090"
  shows "\<exists>d. distance_mm ib high low 2 = Inr d \<and> d < 639"
proof -
  let ?raw = "push_bit 4 (uint high) OR uint low"
  have sh: "4 + unat (2 :: 8 word) < ib" using ib by simp
  have i: "12 < ib" using ib by simp
  have eq: "distance_mm ib high low 2 = Inr (word_of_int ((?raw * 10) div 2 ^ (4 + unat (2 :: 8 word))))"
    by (rule distance_mm_defined [OF i product_fits [OF ib] sh])
  have "(?raw * 10) div 2 ^ 6 < 639" using lt by simp
  then have "uint (word_of_int ((?raw * 10) div 2 ^ 6) :: 16 word) < 639"
    by (simp only: uint_quotient)
  then have "(word_of_int ((?raw * 10) div 2 ^ 6) :: 16 word) < 639"
    by (simp add: word_less_def)
  then show ?thesis using eq by simp
qed

section \<open>What the operations do on the bus\<close>

lemma next_reply_trace: "next_reply (w\<lparr>trace := t\<rparr>) = next_reply w"
  by (simp add: next_reply_def)

lemma next_reply_cases:
  obtains "length (next_reply w) < 2"
  | high low extra where "next_reply w = high # low # extra"
proof (cases "next_reply w")
  case Nil
  then show ?thesis using that(1) by simp
next
  case (Cons a as)
  then show ?thesis using that by (cases as) simp_all
qed

lemma requestFrom_eq:
  "wire_requestFrom a n w =
     w\<lparr>trace := trace w @ [RequestFrom (word_of_int a) n],
        rx := take n (next_reply w), replies := tl (replies w)\<rparr>"
  by (simp add: wire_requestFrom_def next_reply_def emit_def split: list.splits)

lemma available_after_request:
  "wire_available (wire_requestFrom a 2 w) < 2 \<longleftrightarrow> length (next_reply w) < 2"
  by (auto simp: wire_available_def requestFrom_eq)

lemma addresses:
  "(word_of_int MULTIPLEXER_SLAVE_ADDRESS :: 8 word) = 0x70"
  "(word_of_int IR_SLAVE_ADDRESS :: 8 word) = 0x40"
  "(word_of_int IR_SHIFT_REG_ADDRESS :: 8 word) = 0x35"
  "(word_of_int IR_DISTANCE_REG_ADDRESS :: 8 word) = 0x5E"
  by (simp_all add: MULTIPLEXER_SLAVE_ADDRESS_def IR_SLAVE_ADDRESS_def
      IR_SHIFT_REG_ADDRESS_def IR_DISTANCE_REG_ADDRESS_def drop_bit_eq_div)

lemma channel_index_small:
  assumes "unat (m_index s) < MULTIPLEXER_CHANNEL_COUNT" and "16 \<le> ib"
  shows "unat (m_index s) + 1 < ib"
  using assms by (simp add: MULTIPLEXER_CHANNEL_COUNT_def)

lemma one_hot_cases:
  assumes "n < MULTIPLEXER_CHANNEL_COUNT"
  shows "push_bit n (1 :: 8 word) \<in> {1, 2, 4, 8}"
proof -
  have "n = 0 \<or> n = 1 \<or> n = 2 \<or> n = 3"
    using assms by (auto simp: MULTIPLEXER_CHANNEL_COUNT_def)
  then show ?thesis by auto
qed

lemma setMultiplexer_defined:
  assumes "unat (m_index s) + 1 < ib"
  shows "Infrared_setMultiplexer ib s w =
         Inr (s, w\<lparr>trace := trace w @
                [BeginTransmission 0x70, WireWrite (push_bit (unat (m_index s)) 1),
                 EndTransmission]\<rparr>)"
proof -
  have "(1::int) * 2 ^ unat (m_index s) < 2 ^ (unat (m_index s) + 1)" by simp
  then have "int_shl ib 1 (int (unat (m_index s))) = Inr (push_bit (unat (m_index s)) 1)"
    using assms by (intro int_shl_small [where m = "unat (m_index s) + 1"]) simp_all
  then have shl: "int_shl ib 1 (uint (m_index s)) = Inr (push_bit (unat (m_index s)) 1)"
    by simp
  have conv: "(word_of_int (push_bit (unat (m_index s)) 1) :: 8 word) = push_bit (unat (m_index s)) 1"
    by (simp add: push_bit_eq_mult)
  show ?thesis
    by (simp add: Infrared_setMultiplexer_def shl conv wire_beginTransmission_def
        wire_write_def wire_endTransmission_def emit_def addresses)
qed

lemma read_short:
  assumes idx: "unat (m_index s) + 1 < ib"
    and short: "length (next_reply w) < 2"
  shows "Infrared_read ib s w =
         Inr (- 1, s,
              w\<lparr>trace := trace w @
                  [BeginTransmission 0x70, WireWrite (push_bit (unat (m_index s)) 1),
                   EndTransmission,
                   BeginTransmission 0x40, WireWrite 0x5E, EndTransmission,
                   RequestFrom 0x40 2, SerialPrintln ''Wire not available''],
                rx := next_reply w, replies := tl (replies w)\<rparr>)"
  using short
  by (simp add: Infrared_read_def setMultiplexer_defined [OF idx] requestFrom_eq
      wire_beginTransmission_def wire_write_def wire_endTransmission_def wire_available_def
      serial_println_def emit_def addresses Let_def next_reply_trace)

lemma read_full:
  assumes idx: "unat (m_index s) + 1 < ib"
    and full: "next_reply w = high # low # extra"
  shows "Infrared_read ib s w =
         (case distance_mm ib high low (m_shiftValue s) of
            Inl f \<Rightarrow>
              Inl (f,
                   w\<lparr>trace := trace w @
                       [BeginTransmission 0x70, WireWrite (push_bit (unat (m_index s)) 1),
                        EndTransmission,
                        BeginTransmission 0x40, WireWrite 0x5E, EndTransmission,
                        RequestFrom 0x40 2, WireRead, WireRead],
                     rx := [], replies := tl (replies w)\<rparr>)
          | Inr distance \<Rightarrow>
              Inr (if distance < 639 then distance else - 1, s,
                   w\<lparr>trace := trace w @
                       [BeginTransmission 0x70, WireWrite (push_bit (unat (m_index s)) 1),
                        EndTransmission,
                        BeginTransmission 0x40, WireWrite 0x5E, EndTransmission,
                        RequestFrom 0x40 2, WireRead, WireRead],
                     rx := [], replies := tl (replies w)\<rparr>))"
  by (simp add: Infrared_read_def setMultiplexer_defined [OF idx] requestFrom_eq full
      wire_beginTransmission_def wire_write_def wire_endTransmission_def wire_available_def
      wire_read_def emit_def addresses MAX_IR_RANGE_def Let_def next_reply_trace split: sum.splits)

lemma setup_eq:
  assumes idx: "unat (m_index s) + 1 < ib"
  shows "Infrared_setup ib s w =
         Inr (s\<lparr>m_shiftValue := (case take 1 (next_reply w) of [] \<Rightarrow> - 1 | b # _ \<Rightarrow> b)\<rparr>,
              w\<lparr>trace := trace w @
                  [WireBegin,
                   BeginTransmission 0x70, WireWrite (push_bit (unat (m_index s)) 1),
                   EndTransmission,
                   BeginTransmission 0x40, WireWrite 0x35, EndTransmission,
                   RequestFrom 0x40 1] @
                  (if next_reply w = [] then [SerialPrintln ''Wire not available''] else []) @
                  [WireRead],
                rx := [], replies := tl (replies w)\<rparr>)"
  by (cases "next_reply w")
     (simp_all add: Infrared_setup_def setMultiplexer_defined [OF idx] requestFrom_eq
      wire_begin_def wire_beginTransmission_def wire_write_def wire_endTransmission_def
      wire_available_def wire_read_def serial_println_def emit_def addresses Let_def
      next_reply_trace)

lemma setup_no_reply_general:
  assumes idx: "unat (m_index s) < MULTIPLEXER_CHANNEL_COUNT" and ib: "16 \<le> ib"
    and none: "next_reply w = []"
  shows "\<exists>w'. Infrared_setup ib s w = Inr (s\<lparr>m_shiftValue := 255\<rparr>, w')
           \<and> SerialPrintln ''Wire not available'' \<in> set (trace w')"
  using setup_eq [OF channel_index_small [OF idx ib], of w] none by simp

lemma read_of_distance:
  assumes idx: "unat (m_index s) < MULTIPLEXER_CHANNEL_COUNT" and ib: "16 \<le> ib"
    and reply: "next_reply w = high # low # extra"
    and d: "distance_mm ib high low (m_shiftValue s) = Inr d"
  shows "\<exists>w'. Infrared_read ib s w = Inr (if 639 \<le> uint d then - 1 else d, s, w')"
proof -
  have "d < 639 \<longleftrightarrow> \<not> 639 \<le> uint d" by (simp add: word_less_def not_le)
  then show ?thesis
    using read_full [OF channel_index_small [OF idx ib] reply] d by auto
qed

lemma read_result_cases:
  assumes "Infrared_read ib s w = Inr (r, s', w')"
  shows "r = - 1 \<or> r < 639"
proof (cases "Infrared_setMultiplexer ib s w")
  case (Inl f)
  with assms show ?thesis by (simp add: Infrared_read_def)
next
  case (Inr p)
  obtain s1 w1 where p: "p = (s1, w1)" by (cases p)
  from assms show ?thesis
    unfolding Infrared_read_def Inr p
    by (auto simp: Let_def MAX_IR_RANGE_def split: if_splits prod.splits sum.splits)
qed

lemma setMultiplexer_keeps_object:
  assumes "Infrared_setMultiplexer ib s w = Inr (s', w')"
  shows "s' = s"
  using assms by (auto simp: Infrared_setMultiplexer_def Let_def split: sum.splits)

lemma read_keeps_object:
  assumes "Infrared_read ib s w = Inr (r, s', w')"
  shows "s' = s"
proof (cases "Infrared_setMultiplexer ib s w")
  case (Inl f)
  with assms show ?thesis by (simp add: Infrared_read_def)
next
  case (Inr p)
  obtain s1 w1 where p: "p = (s1, w1)" by (cases p)
  have s1: "s1 = s" using Inr p setMultiplexer_keeps_object by blast
  from assms show ?thesis
    unfolding Infrared_read_def Inr p s1
    by (auto simp: Let_def split: if_splits prod.splits sum.splits)
qed

lemma setup_keeps_index:
  assumes "Infrared_setup ib s w = Inr (s', w')"
  shows "m_index s' = m_index s"
proof (cases "Infrared_setMultiplexer ib s (wire_begin w)")
  case (Inl f)
  with assms show ?thesis by (simp add: Infrared_setup_def)
next
  case (Inr p)
  obtain s1 w1 where p: "p = (s1, w1)" by (cases p)
  have s1: "s1 = s" using Inr p setMultiplexer_keeps_object by blast
  from assms show ?thesis
    unfolding Infrared_setup_def Inr p s1
    by (auto simp: Let_def split: if_splits prod.splits sum.splits)
qed

section \<open>Channel selection\<close>

text \<open>
  Claim C5. For every channel index in \<open>[0, 3]\<close> (and any width of \<open>int\<close> the
  language allows), \<open>_setMultiplexer\<close> returns with the object unchanged and adds
  exactly one write transaction to the bus: it is addressed to the multiplexer at
  \<open>0xE0 >> 1\<close>, carries the single byte \<open>1 << index\<close>, and is closed at once.
  That byte is one of \<open>1, 2, 4, 8\<close>: one bit set. Receive buffer and pending replies
  are untouched.
\<close>

theorem setMultiplexer_writes_one_hot_mask:
  assumes "unat (m_index s) < MULTIPLEXER_CHANNEL_COUNT" and "16 \<le> ib"
  shows "Infrared_setMultiplexer ib s w =
           Inr (s, w\<lparr>trace := trace w @
                  [BeginTransmission (drop_bit 1 0xE0),
                   WireWrite (push_bit (unat (m_index s)) 1),
                   EndTransmission]\<rparr>)
         \<and> push_bit (unat (m_index s)) (1 :: 8 word) \<in> {1, 2, 4, 8}"
proof -
  have a: "drop_bit 1 (0xE0 :: 8 word) = 0x70" by (simp add: drop_bit_eq_div)
  show ?thesis
    unfolding a
    using setMultiplexer_defined [OF channel_index_small [OF assms]] one_hot_cases [OF assms(1)]
    by simp
qed

theorem setMultiplexer_writes_one_hot_mask_witness:
  "unat (m_index \<lparr>m_index = 3, m_shiftValue = 2\<rparr>) < MULTIPLEXER_CHANNEL_COUNT
   \<and> (16::nat) \<le> 32
   \<and> Infrared_setMultiplexer 32 \<lparr>m_index = 3, m_shiftValue = 2\<rparr>
        \<lparr>trace = [], rx = [], replies = []\<rparr> =
      Inr (\<lparr>m_index = 3, m_shiftValue = 2\<rparr>,
           \<lparr>trace = [BeginTransmission 0x70, WireWrite 8, EndTransmission],
              rx = [], replies = []\<rparr>)"
proof -
  have h1: "unat (m_index \<lparr>m_index = 3, m_shiftValue = 2\<rparr>) < MULTIPLEXER_CHANNEL_COUNT"
    by (simp add: MULTIPLEXER_CHANNEL_COUNT_def)
  have h2: "(16::nat) \<le> 32" by simp
  show ?thesis
    using h1 h2
      setMultiplexer_writes_one_hot_mask [OF h1 h2, of "\<lparr>trace = [], rx = [], replies = []\<rparr>"]
    by (simp add: drop_bit_eq_div)
qed

text \<open>
  Claim C7. Every call of \<open>read\<close> for a sensor on one of the four channels, whatever
  the bus has seen before (the trace \<open>trace w\<close> is arbitrary, so it may end with the
  traffic of any other sensor object) and whatever becomes of the call, starts by
  writing its own one-hot channel mask to the multiplexer; only then follow the
  register write and the request addressed to the sensor, and after those nothing but
  the reads or the notice. This holds of the bus a returning call leaves and of the
  bus left by a call that stops at an undefined shift. The call returns whenever the
  reply is shorter than two bytes or the decode step is defined. No earlier selection
  is reused: in the example below the sensor on channel 2 reads right after the sensor
  on channel 0 and writes the mask 4 first, and so does a sensor on channel 2 whose
  shift value is 255.
\<close>

theorem read_selects_channel_first:
  assumes idx: "unat (m_index s) < MULTIPLEXER_CHANNEL_COUNT" and ib: "16 \<le> ib"
  shows "(\<exists>rest. trace (bus_after (Infrared_read ib s w)) = trace w @
                 [BeginTransmission (drop_bit 1 0xE0),
                  WireWrite (push_bit (unat (m_index s)) 1), EndTransmission] @
                 [BeginTransmission (drop_bit 1 0x80), WireWrite 0x5E, EndTransmission,
                  RequestFrom (drop_bit 1 0x80) 2] @ rest
            \<and> set rest \<subseteq> {WireRead, SerialPrintln ''Wire not available''})
       \<and> (length (next_reply w) < 2 \<or> (17 \<le> ib \<and> 4 + unat (m_shiftValue s) < ib) \<longrightarrow>
            (\<exists>r w'. Infrared_read ib s w = Inr (r, s, w')))"
proof -
  have a: "drop_bit 1 (0xE0 :: 8 word) = 0x70" "drop_bit 1 (0x80 :: 8 word) = 0x40"
    by (simp_all add: drop_bit_eq_div)
  note i = channel_index_small [OF idx ib]
  have order: "\<exists>rest. trace (bus_after (Infrared_read ib s w)) = trace w @
                 [BeginTransmission 0x70,
                  WireWrite (push_bit (unat (m_index s)) 1), EndTransmission] @
                 [BeginTransmission 0x40, WireWrite 0x5E, EndTransmission,
                  RequestFrom 0x40 2] @ rest
            \<and> set rest \<subseteq> {WireRead, SerialPrintln ''Wire not available''}"
  proof (cases w rule: next_reply_cases)
    case 1
    show ?thesis
      unfolding read_short [OF i 1] bus_after_def by simp
  next
    case (2 high low extra)
    show ?thesis
      unfolding read_full [OF i 2] bus_after_def
      by (cases "distance_mm ib high low (m_shiftValue s)") simp_all
  qed
  have returns: "\<exists>r w'. Infrared_read ib s w = Inr (r, s, w')"
    if dom: "length (next_reply w) < 2 \<or> (17 \<le> ib \<and> 4 + unat (m_shiftValue s) < ib)"
  proof (cases w rule: next_reply_cases)
    case 1
    show ?thesis using read_short [OF i 1] by blast
  next
    case (2 high low extra)
    then have "\<not> length (next_reply w) < 2" by simp
    with dom have w17: "17 \<le> ib" and sh: "4 + unat (m_shiftValue s) < ib" by blast+
    obtain d where d: "distance_mm ib high low (m_shiftValue s) = Inr d"
      using distance_mm_value [OF w17 sh] by blast
    show ?thesis using read_of_distance [OF idx ib 2 d] by blast
  qed
  show ?thesis unfolding a using order returns by blast
qed

theorem read_selects_channel_first_witness:
  "unat (m_index \<lparr>m_index = 2, m_shiftValue = 2\<rparr>) < MULTIPLEXER_CHANNEL_COUNT
   \<and> unat (m_index \<lparr>m_index = 2, m_shiftValue = 255\<rparr>) < MULTIPLEXER_CHANNEL_COUNT
   \<and> (16::nat) \<le> 32
   \<and> ((17::nat) \<le> 32 \<and> 4 + unat (m_shiftValue \<lparr>m_index = 2 :: 8 word, m_shiftValue = 2\<rparr>) < (32::nat))
   \<and> Infrared_read 32 \<lparr>m_index = 0, m_shiftValue = 1\<rparr>
        \<lparr>trace = [], rx = [], replies = [[0x10, 0x00], [0x27, 0x00]]\<rparr> =
      Inr (80, \<lparr>m_index = 0, m_shiftValue = 1\<rparr>,
           \<lparr>trace = [BeginTransmission 0x70, WireWrite 1, EndTransmission,
                     BeginTransmission 0x40, WireWrite 0x5E, EndTransmission,
                     RequestFrom 0x40 2, WireRead, WireRead],
              rx = [], replies = [[0x27, 0x00]]\<rparr>)
   \<and> Infrared_read 32 \<lparr>m_index = 2, m_shiftValue = 2\<rparr>
        \<lparr>trace = [BeginTransmission 0x70, WireWrite 1, EndTransmission,
                  BeginTransmission 0x40, WireWrite 0x5E, EndTransmission,
                  RequestFrom 0x40 2, WireRead, WireRead],
           rx = [], replies = [[0x27, 0x00]]\<rparr> =
      Inr (97, \<lparr>m_index = 2, m_shiftValue = 2\<rparr>,
           \<lparr>trace = [BeginTransmission 0x70, WireWrite 1, EndTransmission,
                     BeginTransmission 0x40, WireWrite 0x5E, EndTransmission,
                     RequestFrom 0x40 2, WireRead, WireRead,
                     BeginTransmission 0x70, WireWrite 4, EndTransmission,
                     BeginTransmission 0x40, WireWrite 0x5E, EndTransmission,
                     RequestFrom 0x40 2, WireRead, WireRead],
              rx = [], replies = []\<rparr>)
   \<and> Infrared_read 32 \<lparr>m_index = 2, m_shiftValue = 255\<rparr>
        \<lparr>trace = [BeginTransmission 0x70, WireWrite 1, EndTransmission,
                  BeginTransmission 0x40, WireWrite 0x5E, EndTransmission,
                  RequestFrom 0x40 2, WireRead, WireRead],
           rx = [], replies = [[0x27, 0x00]]\<rparr> =
      Inl (ShiftOutOfRange,
           \<lparr>trace = [BeginTransmission 0x70, WireWrite 1, EndTransmission,
                     BeginTransmission 0x40, WireWrite 0x5E, EndTransmission,
                     RequestFrom 0x40 2, WireRead, WireRead,
                     BeginTransmission 0x70, WireWrite 4, EndTransmission,
                     BeginTransmission 0x40, WireWrite 0x5E, EndTransmission,
                     RequestFrom 0x40 2, WireRead, WireRead],
              rx = [], replies = []\<rparr>)"
proof -
  let ?a = "\<lparr>m_index = 2, m_shiftValue = 2\<rparr>"
  let ?c = "\<lparr>m_index = 2, m_shiftValue = 255\<rparr>"
  let ?b = "\<lparr>m_index = 0, m_shiftValue = 1\<rparr>"
  let ?w0 = "\<lparr>trace = [], rx = [], replies = [[0x10, 0x00], [0x27, 0x00]]\<rparr>"
  let ?w1 = "\<lparr>trace = [BeginTransmission 0x70, WireWrite 1, EndTransmission,
                  BeginTransmission 0x40, WireWrite 0x5E, EndTransmission,
                  RequestFrom 0x40 2, WireRead, WireRead],
           rx = [], replies = [[0x27, 0x00]]\<rparr>"
  let ?w2 = "\<lparr>trace = [BeginTransmission 0x70, WireWrite 1, EndTransmission,
                     BeginTransmission 0x40, WireWrite 0x5E, EndTransmission,
                     RequestFrom 0x40 2, WireRead, WireRead,
                     BeginTransmission 0x70, WireWrite 4, EndTransmission,
                     BeginTransmission 0x40, WireWrite 0x5E, EndTransmission,
                     RequestFrom 0x40 2, WireRead, WireRead],
              rx = [], replies = []\<rparr>"
  have h1: "unat (m_index ?a) < MULTIPLEXER_CHANNEL_COUNT"
    by (simp add: MULTIPLEXER_CHANNEL_COUNT_def)
  have h1': "unat (m_index ?c) < MULTIPLEXER_CHANNEL_COUNT"
    by (simp add: MULTIPLEXER_CHANNEL_COUNT_def)
  have h2: "(16::nat) \<le> 32" by simp
  have dom: "(17::nat) \<le> 32 \<and> 4 + unat (m_shiftValue ?a) < (32::nat)" by simp
  have b: "Infrared_read 32 ?b ?w0 = Inr (80, ?b, ?w1)" by code_simp
  have ra: "Infrared_read 32 ?a ?w1 = Inr (97, ?a, ?w2)" by code_simp
  have rc: "Infrared_read 32 ?c ?w1 = Inl (ShiftOutOfRange, ?w2)" by code_simp
  from read_selects_channel_first [OF h1 h2, of ?w1] dom
  have "\<exists>r w'. Infrared_read 32 ?a ?w1 = Inr (r, ?a, w')" by blast
  moreover from read_selects_channel_first [OF h1' h2, of ?w1]
  have "\<exists>rest. trace (bus_after (Infrared_read 32 ?c ?w1)) = trace ?w1 @
          [BeginTransmission (drop_bit 1 0xE0), WireWrite (push_bit (unat (m_index ?c)) 1),
           EndTransmission] @
          [BeginTransmission (drop_bit 1 0x80), WireWrite 0x5E, EndTransmission,
           RequestFrom (drop_bit 1 0x80) 2] @ rest"
    by blast
  ultimately show ?thesis using h1 h1' h2 dom b ra rc by blast
qed

section \<open>Reading a distance\<close>

text \<open>
  Claim C4. Whenever the bus answers the two-byte request of \<open>read\<close> with fewer than
  two bytes, which is when fewer than two bytes are available after the request
  (\<open>available_after_request\<close>), for a sensor on one of the four channels, \<open>read\<close>
  returns exactly
  \<open>-1\<close>: it selects the channel, addresses the distance register, requests two bytes,
  prints the notice and returns. No \<open>Wire.read\<close> is issued, the byte that may have
  arrived stays in the receive buffer, and no distance is computed.
\<close>

theorem read_short_reply_returns_sentinel:
  assumes idx: "unat (m_index s) < MULTIPLEXER_CHANNEL_COUNT" and ib: "16 \<le> ib"
    and short: "length (next_reply w) < 2"
  shows "\<exists>w'. Infrared_read ib s w = Inr (- 1, s, w')
           \<and> sint (- 1 :: 16 word) = - 1
           \<and> trace w' = trace w @
                 [BeginTransmission 0x70, WireWrite (push_bit (unat (m_index s)) 1),
                  EndTransmission,
                  BeginTransmission 0x40, WireWrite 0x5E, EndTransmission,
                  RequestFrom 0x40 2, SerialPrintln ''Wire not available'']
           \<and> WireRead \<notin> set (drop (length (trace w)) (trace w'))
           \<and> rx w' = next_reply w"
  using read_short [OF channel_index_small [OF idx ib] short] by simp

theorem read_short_reply_returns_sentinel_witness:
  "unat (m_index \<lparr>m_index = 1, m_shiftValue = 2\<rparr>) < MULTIPLEXER_CHANNEL_COUNT
   \<and> (16::nat) \<le> 32
   \<and> length (next_reply \<lparr>trace = [], rx = [], replies = [[0x27]]\<rparr>) < 2
   \<and> (\<exists>w'. Infrared_read 32 \<lparr>m_index = 1, m_shiftValue = 2\<rparr>
              \<lparr>trace = [], rx = [], replies = [[0x27]]\<rparr> =
            Inr (- 1, \<lparr>m_index = 1, m_shiftValue = 2\<rparr>, w')
          \<and> rx w' = [0x27])"
proof -
  have h1: "unat (m_index \<lparr>m_index = 1, m_shiftValue = 2\<rparr>) < MULTIPLEXER_CHANNEL_COUNT"
    by (simp add: MULTIPLEXER_CHANNEL_COUNT_def)
  have h2: "(16::nat) \<le> 32" by simp
  have h3: "length (next_reply \<lparr>trace = [], rx = [], replies = [[0x27]]\<rparr>) < 2"
    by (simp add: next_reply_def)
  have n: "next_reply \<lparr>trace = [], rx = [], replies = [[0x27]]\<rparr> = [0x27]"
    by (simp add: next_reply_def)
  show ?thesis
    using h1 h2 h3 read_short_reply_returns_sentinel [OF h1 h2 h3] unfolding n by blast
qed

text \<open>
  Claim C1, amended. The claim holds for the stored shift values whose shift count
  \<open>4 + _shiftValue\<close> is smaller than the width of \<open>int\<close> (up to 27 on a 32-bit
  \<open>int\<close>), on an \<open>int\<close> of more than 16 bits: \<open>read\<close> takes the first byte received
  as \<open>high\<close> and the second as \<open>low\<close>, the decode step yields
  \<open>(((high << 4) | low) * 10) div 2^(4 + _shiftValue)\<close> without loss in \<open>uint16_t\<close>,
  and \<open>read\<close> returns that value below 639 and \<open>-1\<close> from 639 on. For the bytes
  \<open>0x27, 0x00\<close> and the shift value 2 the raw value is 624 and \<open>read\<close> returns 97.
\<close>

theorem read_decodes_register_pair:
  assumes idx: "unat (m_index s) < MULTIPLEXER_CHANNEL_COUNT" and ib: "17 \<le> ib"
    and sh: "4 + unat (m_shiftValue s) < ib"
    and reply: "next_reply w = high # low # extra"
  shows "(\<exists>d. distance_mm ib high low (m_shiftValue s) = Inr d
            \<and> uint d = ((push_bit 4 (uint high) OR uint low) * 10) div
                        2 ^ (4 + unat (m_shiftValue s))
            \<and> (\<exists>w'. Infrared_read ib s w = Inr (if 639 \<le> uint d then - 1 else d, s, w')))
       \<and> (high = 0x27 \<and> low = 0 \<and> m_shiftValue s = 2 \<longrightarrow>
            push_bit 4 (uint high) OR uint low = 624
          \<and> distance_mm ib high low (m_shiftValue s) = Inr 97
          \<and> (\<exists>w'. Infrared_read ib s w = Inr (97, s, w')))"
proof -
  have ib16: "16 \<le> ib" using ib by simp
  obtain d where d: "distance_mm ib high low (m_shiftValue s) = Inr d"
    and v: "uint d = ((push_bit 4 (uint high) OR uint low) * 10) div 2 ^ (4 + unat (m_shiftValue s))"
    using distance_mm_value [OF ib sh] by blast
  note r = read_of_distance [OF idx ib16 reply d]
  have general: "\<exists>d. distance_mm ib high low (m_shiftValue s) = Inr d
            \<and> uint d = ((push_bit 4 (uint high) OR uint low) * 10) div
                        2 ^ (4 + unat (m_shiftValue s))
            \<and> (\<exists>w'. Infrared_read ib s w = Inr (if 639 \<le> uint d then - 1 else d, s, w'))"
    using d v r by blast
  have example: "push_bit 4 (uint high) OR uint low = 624
          \<and> distance_mm ib high low (m_shiftValue s) = Inr 97
          \<and> (\<exists>w'. Infrared_read ib s w = Inr (97, s, w'))"
    if c: "high = 0x27 \<and> low = 0 \<and> m_shiftValue s = 2"
  proof -
    have raw: "push_bit 4 (uint high) OR uint low = 624" using c by (simp add: push_bit_eq_mult)
    have "uint d = 97" using v c by (simp add: push_bit_eq_mult)
    then have d97: "d = 97" by (simp add: word_uint_eq_iff)
    show ?thesis using raw d r unfolding d97 by simp
  qed
  show ?thesis using general example by blast
qed

theorem read_decodes_register_pair_witness:
  "unat (m_index \<lparr>m_index = 0, m_shiftValue = 2\<rparr>) < MULTIPLEXER_CHANNEL_COUNT
   \<and> (17::nat) \<le> 32
   \<and> 4 + unat (m_shiftValue \<lparr>m_index = 0 :: 8 word, m_shiftValue = 2\<rparr>) < (32::nat)
   \<and> next_reply \<lparr>trace = [], rx = [], replies = [[0x27, 0x00]]\<rparr> = [0x27, 0x00]
   \<and> distance_mm 32 0x27 0x00 2 = Inr 97
   \<and> (\<exists>w'. Infrared_read 32 \<lparr>m_index = 0, m_shiftValue = 2\<rparr>
              \<lparr>trace = [], rx = [], replies = [[0x27, 0x00]]\<rparr> =
            Inr (97, \<lparr>m_index = 0, m_shiftValue = 2\<rparr>, w'))"
proof -
  let ?s = "\<lparr>m_index = 0, m_shiftValue = 2\<rparr> :: infrared"
  let ?w = "\<lparr>trace = [], rx = [], replies = [[0x27, 0x00]]\<rparr> :: io"
  have h1: "unat (m_index ?s) < MULTIPLEXER_CHANNEL_COUNT"
    by (simp add: MULTIPLEXER_CHANNEL_COUNT_def)
  have h2: "(17::nat) \<le> 32" by simp
  have h3: "4 + unat (m_shiftValue ?s) < (32::nat)" by simp
  have h4: "next_reply ?w = 0x27 # 0x00 # []" by (simp add: next_reply_def)
  have c: "(0x27 :: 8 word) = 0x27 \<and> (0x00 :: 8 word) = 0 \<and> m_shiftValue ?s = 2" by simp
  from read_decodes_register_pair [OF h1 h2 h3 h4] c
  have "distance_mm 32 0x27 0x00 (m_shiftValue ?s) = Inr 97
        \<and> (\<exists>w'. Infrared_read 32 ?s ?w = Inr (97, ?s, w'))"
    by blast
  then show ?thesis using h1 h2 h3 h4 by simp
qed

text \<open>
  The claim as written, for every stored shift value, fails: with \<open>_shiftValue = 255\<close>
  (the value a \<open>setup\<close> without reply leaves behind) and the bytes \<open>0x01, 0x00\<close> the
  formula gives \<open>160 div 2^259 = 0\<close>, but the shift by 259 is undefined on a 32-bit
  \<open>int\<close> and \<open>read\<close> has no result: it stops after the two bytes have been read.
\<close>

theorem read_decodes_register_pair_counterexample:
  "Infrared_read 32 \<lparr>m_index = 0, m_shiftValue = 255\<rparr>
     \<lparr>trace = [], rx = [], replies = [[0x01, 0x00]]\<rparr> =
   Inl (ShiftOutOfRange,
        \<lparr>trace = [BeginTransmission 0x70, WireWrite 1, EndTransmission,
                  BeginTransmission 0x40, WireWrite 0x5E, EndTransmission,
                  RequestFrom 0x40 2, WireRead, WireRead],
           rx = [], replies = []\<rparr>)
   \<and> ((push_bit 4 (uint (0x01 :: 8 word)) OR uint (0x00 :: 8 word)) * 10) div
       2 ^ (4 + unat (255 :: 8 word)) = (0 :: int)"
proof -
  have "Infrared_read 32 \<lparr>m_index = 0, m_shiftValue = 255\<rparr>
     \<lparr>trace = [], rx = [], replies = [[0x01, 0x00]]\<rparr> =
   Inl (ShiftOutOfRange,
        \<lparr>trace = [BeginTransmission 0x70, WireWrite 1, EndTransmission,
                  BeginTransmission 0x40, WireWrite 0x5E, EndTransmission,
                  RequestFrom 0x40 2, WireRead, WireRead],
           rx = [], replies = []\<rparr>)"
    by code_simp
  moreover have "((push_bit 4 (uint (0x01 :: 8 word)) OR uint (0x00 :: 8 word)) * 10) div
       2 ^ (4 + unat (255 :: 8 word)) = (0 :: int)"
    by (simp add: push_bit_eq_mult)
  ultimately show ?thesis by (rule conjI)
qed

text \<open>
  Claim C2, amended. The claim holds for the stored shift values whose shift count
  \<open>4 + _shiftValue\<close> is smaller than the width of \<open>int\<close>, on an \<open>int\<close> of more than
  16 bits. There, for a sensor on one of the four channels and a reply of at least two
  bytes, the decode step computes a distance \<open>d\<close> and \<open>read\<close> returns: \<open>-1\<close> when
  \<open>d\<close> is at least 639 and \<open>d\<close> itself otherwise. A value returned by \<open>read\<close>
  that is not \<open>-1\<close> lies in \<open>[0, 638]\<close>. With \<open>_shiftValue = 2\<close>: the bytes
  \<open>0xFF, 0x0A\<close> (raw value 4090) decode to 639, every smaller raw value decodes to
  less, and \<open>read\<close> returns \<open>-1\<close> for them; the bytes \<open>0xFF, 0x09\<close> decode to 638,
  which \<open>read\<close> returns.
\<close>

theorem read_validates_range:
  assumes idx: "unat (m_index s) < MULTIPLEXER_CHANNEL_COUNT" and ib: "17 \<le> ib"
    and sh: "4 + unat (m_shiftValue s) < ib"
    and reply: "next_reply w = high # low # extra"
  shows "(\<exists>d w'. distance_mm ib high low (m_shiftValue s) = Inr d
            \<and> Infrared_read ib s w = Inr (if 639 \<le> uint d then - 1 else d, s, w'))
       \<and> (\<forall>r s' w'. Infrared_read ib s w = Inr (r, s', w') \<longrightarrow> r \<noteq> - 1 \<longrightarrow>
            0 \<le> sint r \<and> sint r \<le> 638)
       \<and> distance_mm ib 0xFF 0x0A 2 = Inr 639
       \<and> distance_mm ib 0xFF 0x09 2 = Inr 638
       \<and> (\<forall>h l. push_bit 4 (uint h) OR uint l
                  < push_bit 4 (uint (0xFF :: 8 word)) OR uint (0x0A :: 8 word) \<longrightarrow>
                (\<exists>d. distance_mm ib h l 2 = Inr d \<and> d < 639))
       \<and> (\<exists>w'. Infrared_read ib (s\<lparr>m_shiftValue := 2\<rparr>)
                   (w\<lparr>replies := [0xFF, 0x0A] # replies w\<rparr>) =
                 Inr (- 1, s\<lparr>m_shiftValue := 2\<rparr>, w'))
       \<and> (\<exists>w'. Infrared_read ib (s\<lparr>m_shiftValue := 2\<rparr>)
                   (w\<lparr>replies := [0xFF, 0x09] # replies w\<rparr>) =
                 Inr (638, s\<lparr>m_shiftValue := 2\<rparr>, w'))"
proof -
  have ib16: "16 \<le> ib" using ib by simp
  let ?s2 = "s\<lparr>m_shiftValue := 2\<rparr>"
  have idx2: "unat (m_index ?s2) < MULTIPLEXER_CHANNEL_COUNT" using idx by simp
  obtain d where d: "distance_mm ib high low (m_shiftValue s) = Inr d"
    using distance_mm_value [OF ib sh] by blast
  have general: "\<exists>d w'. distance_mm ib high low (m_shiftValue s) = Inr d
            \<and> Infrared_read ib s w = Inr (if 639 \<le> uint d then - 1 else d, s, w')"
    using d read_of_distance [OF idx ib16 reply d] by blast
  have range: "0 \<le> sint r \<and> sint r \<le> 638"
    if "Infrared_read ib s w = Inr (r, s', w')" and "r \<noteq> - 1" for r s' w'
  proof -
    have "r < 639" using that read_result_cases by blast
    then show ?thesis by (rule sint_small)
  qed
  have below: "\<exists>d. distance_mm ib h l 2 = Inr d \<and> d < 639"
    if "push_bit 4 (uint h) OR uint l
          < push_bit 4 (uint (0xFF :: 8 word)) OR uint (0x0A :: 8 word)" for h l :: "8 word"
  proof -
    have "push_bit 4 (uint h) OR uint l < 4090" using that by (simp add: push_bit_eq_mult)
    then show ?thesis by (rule below_boundary [OF ib])
  qed
  have ra: "next_reply (w\<lparr>replies := [0xFF, 0x0A] # replies w\<rparr>) = 0xFF # 0x0A # []"
    and rb: "next_reply (w\<lparr>replies := [0xFF, 0x09] # replies w\<rparr>) = 0xFF # 0x09 # []"
    by (simp_all add: next_reply_def)
  have da: "distance_mm ib 0xFF 0x0A (m_shiftValue ?s2) = Inr 639"
    using boundary_639 [OF ib] by simp
  have db: "distance_mm ib 0xFF 0x09 (m_shiftValue ?s2) = Inr 638"
    using boundary_638 [OF ib] by simp
  have upper: "\<exists>w'. Infrared_read ib ?s2 (w\<lparr>replies := [0xFF, 0x0A] # replies w\<rparr>) =
                 Inr (- 1, ?s2, w')"
    using read_of_distance [OF idx2 ib16 ra da] by simp
  have lower: "\<exists>w'. Infrared_read ib ?s2 (w\<lparr>replies := [0xFF, 0x09] # replies w\<rparr>) =
                 Inr (638, ?s2, w')"
    using read_of_distance [OF idx2 ib16 rb db] by simp
  show ?thesis
    using general range boundary_639 [OF ib] boundary_638 [OF ib] below upper lower
    by blast
qed

theorem read_validates_range_witness:
  "unat (m_index \<lparr>m_index = 0, m_shiftValue = 1\<rparr>) < MULTIPLEXER_CHANNEL_COUNT
   \<and> (17::nat) \<le> 32
   \<and> 4 + unat (m_shiftValue \<lparr>m_index = 0 :: 8 word, m_shiftValue = 1\<rparr>) < (32::nat)
   \<and> next_reply \<lparr>trace = [], rx = [], replies = [[0x27, 0x00]]\<rparr> = [0x27, 0x00]
   \<and> Infrared_read 32 \<lparr>m_index = 0, m_shiftValue = 1\<rparr>
        \<lparr>trace = [], rx = [], replies = [[0x27, 0x00]]\<rparr> =
      Inr (195, \<lparr>m_index = 0, m_shiftValue = 1\<rparr>,
           \<lparr>trace = [BeginTransmission 0x70, WireWrite 1, EndTransmission,
                     BeginTransmission 0x40, WireWrite 0x5E, EndTransmission,
                     RequestFrom 0x40 2, WireRead, WireRead],
              rx = [], replies = []\<rparr>)
   \<and> (195 :: 16 word) \<noteq> - 1
   \<and> 0 \<le> sint (195 :: 16 word) \<and> sint (195 :: 16 word) \<le> 638
   \<and> distance_mm 32 0xFF 0x0A 2 = Inr 639
   \<and> distance_mm 32 0xFF 0x09 2 = Inr 638
   \<and> push_bit 4 (uint (0xFF :: 8 word)) OR uint (0x09 :: 8 word)
       < push_bit 4 (uint (0xFF :: 8 word)) OR uint (0x0A :: 8 word)
   \<and> (\<exists>d. distance_mm 32 0xFF 0x09 2 = Inr d \<and> d < 639)
   \<and> (\<exists>w'. Infrared_read 32 \<lparr>m_index = 0, m_shiftValue = 2\<rparr>
              \<lparr>trace = [], rx = [], replies = [[0xFF, 0x0A], [0x27, 0x00]]\<rparr> =
            Inr (- 1, \<lparr>m_index = 0, m_shiftValue = 2\<rparr>, w'))
   \<and> (\<exists>w'. Infrared_read 32 \<lparr>m_index = 0, m_shiftValue = 2\<rparr>
              \<lparr>trace = [], rx = [], replies = [[0xFF, 0x09], [0x27, 0x00]]\<rparr> =
            Inr (638, \<lparr>m_index = 0, m_shiftValue = 2\<rparr>, w'))"
proof -
  let ?s = "\<lparr>m_index = 0, m_shiftValue = 1\<rparr> :: infrared"
  let ?w = "\<lparr>trace = [], rx = [], replies = [[0x27, 0x00]]\<rparr> :: io"
  let ?w1 = "\<lparr>trace = [BeginTransmission 0x70, WireWrite 1, EndTransmission,
                     BeginTransmission 0x40, WireWrite 0x5E, EndTransmission,
                     RequestFrom 0x40 2, WireRead, WireRead],
              rx = [], replies = []\<rparr> :: io"
  have h1: "unat (m_index ?s) < MULTIPLEXER_CHANNEL_COUNT"
    by (simp add: MULTIPLEXER_CHANNEL_COUNT_def)
  have h2: "(17::nat) \<le> 32" by simp
  have h3: "4 + unat (m_shiftValue ?s) < (32::nat)" by simp
  have h4: "next_reply ?w = 0x27 # 0x00 # []" by (simp add: next_reply_def)
  have run: "Infrared_read 32 ?s ?w = Inr (195, ?s, ?w1)" by code_simp
  have ne: "(195 :: 16 word) \<noteq> - 1" by simp
  have lt: "push_bit 4 (uint (0xFF :: 8 word)) OR uint (0x09 :: 8 word)
       < push_bit 4 (uint (0xFF :: 8 word)) OR uint (0x0A :: 8 word)"
    by (simp add: push_bit_eq_mult)
  note t = read_validates_range [OF h1 h2 h3 h4]
  from t run ne have range: "0 \<le> sint (195 :: 16 word) \<and> sint (195 :: 16 word) \<le> 638"
    by blast
  from t have d639: "distance_mm 32 0xFF 0x0A 2 = Inr 639" by blast
  from t have d638: "distance_mm 32 0xFF 0x09 2 = Inr 638" by blast
  from t lt have below: "\<exists>d. distance_mm 32 0xFF 0x09 2 = Inr d \<and> d < 639" by blast
  from t have upper: "\<exists>w'. Infrared_read 32 (?s\<lparr>m_shiftValue := 2\<rparr>)
        (?w\<lparr>replies := [0xFF, 0x0A] # replies ?w\<rparr>) =
      Inr (- 1, ?s\<lparr>m_shiftValue := 2\<rparr>, w')"
    by blast
  from t have lower: "\<exists>w'. Infrared_read 32 (?s\<lparr>m_shiftValue := 2\<rparr>)
        (?w\<lparr>replies := [0xFF, 0x09] # replies ?w\<rparr>) =
      Inr (638, ?s\<lparr>m_shiftValue := 2\<rparr>, w')"
    by blast
  from h1 h2 h3 h4 run ne range d639 d638 lt below upper lower show ?thesis by simp
qed

text \<open>
  The claim as written fails where the decode step is undefined. With
  \<open>_shiftValue = 255\<close> and the bytes \<open>0xFF, 0xFF\<close> the formula gives
  \<open>40950 div 2^259 = 0\<close>, a distance below 639 that \<open>read\<close> should return; the shift
  by 259 is undefined on a 32-bit \<open>int\<close> and \<open>read\<close> returns nothing. On a 16-bit
  \<open>int\<close> the boundary itself is lost: for the bytes \<open>0xFF, 0x09\<close> and the shift value
  2, which should yield 638, the product \<open>4089 * 10\<close> does not fit.
\<close>

theorem read_validates_range_counterexample:
  "Infrared_read 32 \<lparr>m_index = 0, m_shiftValue = 255\<rparr>
     \<lparr>trace = [], rx = [], replies = [[0xFF, 0xFF]]\<rparr> =
   Inl (ShiftOutOfRange,
        \<lparr>trace = [BeginTransmission 0x70, WireWrite 1, EndTransmission,
                  BeginTransmission 0x40, WireWrite 0x5E, EndTransmission,
                  RequestFrom 0x40 2, WireRead, WireRead],
           rx = [], replies = []\<rparr>)
   \<and> ((push_bit 4 (uint (0xFF :: 8 word)) OR uint (0xFF :: 8 word)) * 10) div
       2 ^ (4 + unat (255 :: 8 word)) = (0 :: int)
   \<and> Infrared_read 16 \<lparr>m_index = 0, m_shiftValue = 2\<rparr>
       \<lparr>trace = [], rx = [], replies = [[0xFF, 0x09]]\<rparr> =
     Inl (SignedOverflow,
          \<lparr>trace = [BeginTransmission 0x70, WireWrite 1, EndTransmission,
                    BeginTransmission 0x40, WireWrite 0x5E, EndTransmission,
                    RequestFrom 0x40 2, WireRead, WireRead],
             rx = [], replies = []\<rparr>)"
proof -
  have "Infrared_read 32 \<lparr>m_index = 0, m_shiftValue = 255\<rparr>
     \<lparr>trace = [], rx = [], replies = [[0xFF, 0xFF]]\<rparr> =
   Inl (ShiftOutOfRange,
        \<lparr>trace = [BeginTransmission 0x70, WireWrite 1, EndTransmission,
                  BeginTransmission 0x40, WireWrite 0x5E, EndTransmission,
                  RequestFrom 0x40 2, WireRead, WireRead],
           rx = [], replies = []\<rparr>)"
    by code_simp
  moreover have "((push_bit 4 (uint (0xFF :: 8 word)) OR uint (0xFF :: 8 word)) * 10) div
       2 ^ (4 + unat (255 :: 8 word)) = (0 :: int)"
    by (simp add: push_bit_eq_mult)
  moreover have "Infrared_read 16 \<lparr>m_index = 0, m_shiftValue = 2\<rparr>
       \<lparr>trace = [], rx = [], replies = [[0xFF, 0x09]]\<rparr> =
     Inl (SignedOverflow,
          \<lparr>trace = [BeginTransmission 0x70, WireWrite 1, EndTransmission,
                    BeginTransmission 0x40, WireWrite 0x5E, EndTransmission,
                    RequestFrom 0x40 2, WireRead, WireRead],
             rx = [], replies = []\<rparr>)"
    by code_simp
  ultimately show ?thesis by blast
qed

section \<open>The decode formula\<close>

text \<open>
  Claim C6, amended. For every high byte, every low byte of at most 15 and every
  shift value whose shift count \<open>4 + shift\<close> is smaller than the width of \<open>int\<close>
  (an \<open>int\<close> of more than 16 bits), the decode step computes a distance, and it is the
  value of the reference formula \<open>((high * 16 + low) * 10) div (16 * 2^shift)\<close>.
\<close>

theorem shift_formula_matches_reference:
  assumes ib: "17 \<le> ib" and sh: "4 + unat shiftValue < ib" and nib: "uint low \<le> 15"
  shows "\<exists>d. distance_mm ib high low shiftValue = Inr d
           \<and> uint d = reference_distance_mm (uint high) (uint low) (unat shiftValue)"
proof -
  obtain d where d: "distance_mm ib high low shiftValue = Inr d"
    and v: "uint d = ((push_bit 4 (uint high) OR uint low) * 10) div 2 ^ (4 + unat shiftValue)"
    using distance_mm_value [OF ib sh] by blast
  have "(2::int) ^ (4 + unat shiftValue) = 16 * 2 ^ unat shiftValue" by (simp add: power_add)
  then have "uint d = ((uint high * 16 + uint low) * 10) div (16 * 2 ^ unat shiftValue)"
    using v by (simp only: or_low_nibble [OF nib])
  then have "uint d = reference_distance_mm (uint high) (uint low) (unat shiftValue)"
    by (simp only: reference_distance_mm_def)
  with d show ?thesis by blast
qed

theorem shift_formula_matches_reference_witness:
  "(17::nat) \<le> 32 \<and> 4 + unat (2 :: 8 word) < (32::nat) \<and> uint (0x0C :: 8 word) \<le> 15
   \<and> reference_distance_mm (uint (0x27 :: 8 word)) (uint (0x0C :: 8 word)) (unat (2 :: 8 word)) = 99
   \<and> (\<exists>d. distance_mm 32 0x27 0x0C 2 = Inr d \<and> uint d = 99)"
proof -
  have h1: "(17::nat) \<le> 32" by simp
  have h2: "4 + unat (2 :: 8 word) < (32::nat)" by simp
  have h3: "uint (0x0C :: 8 word) \<le> 15" by simp
  have r: "reference_distance_mm (uint (0x27 :: 8 word)) (uint (0x0C :: 8 word)) (unat (2 :: 8 word)) = 99"
    by (simp add: reference_distance_mm_def)
  from shift_formula_matches_reference [OF h1 h2 h3, of "0x27"]
  have "\<exists>d. distance_mm 32 0x27 0x0C 2 = Inr d \<and> uint d = 99" unfolding r .
  with h1 h2 h3 r show ?thesis by blast
qed

text \<open>
  For every shift value the claim fails. On a 32-bit \<open>int\<close> the first shift value
  out of range is 28: for the bytes \<open>0x27, 0x00\<close> the reference formula is 0 there,
  while the shift by 32 is undefined and the decode step yields no distance. The same
  holds at 255, the shift value a \<open>setup\<close> without reply leaves in the object.
\<close>

theorem shift_formula_matches_reference_counterexample:
  "distance_mm 32 0x27 0x00 28 = Inl ShiftOutOfRange
   \<and> reference_distance_mm (uint (0x27 :: 8 word)) (uint (0x00 :: 8 word)) (unat (28 :: 8 word)) = 0
   \<and> distance_mm 32 0x27 0x00 255 = Inl ShiftOutOfRange
   \<and> reference_distance_mm (uint (0x27 :: 8 word)) (uint (0x00 :: 8 word)) (unat (255 :: 8 word)) = 0"
proof -
  have "distance_mm 32 0x27 0x00 28 = Inl ShiftOutOfRange" by code_simp
  moreover have "reference_distance_mm (uint (0x27 :: 8 word)) (uint (0x00 :: 8 word)) (unat (28 :: 8 word)) = 0"
    by (simp add: reference_distance_mm_def)
  moreover have "distance_mm 32 0x27 0x00 255 = Inl ShiftOutOfRange" by code_simp
  moreover have "reference_distance_mm (uint (0x27 :: 8 word)) (uint (0x00 :: 8 word)) (unat (255 :: 8 word)) = 0"
    by (simp add: reference_distance_mm_def)
  ultimately show ?thesis by blast
qed

text \<open>
  Claim C8, amended. For every pair of bytes and every shift value whose successor
  is still a stored shift value with a shift count below the width of \<open>int\<close> (an
  \<open>int\<close> of more than 16 bits), the decode step computes a distance for both shift
  values, and the one for the successor is the other one divided by 2, truncated.
\<close>

theorem shift_increment_halves:
  assumes ib: "17 \<le> ib" and succ: "unat shiftValue' = unat shiftValue + 1"
    and sh: "4 + unat shiftValue' < ib"
  shows "\<exists>d d'. distance_mm ib high low shiftValue = Inr d
           \<and> distance_mm ib high low shiftValue' = Inr d'
           \<and> uint d' = uint d div 2 \<and> d' = d div 2"
proof -
  let ?p = "(push_bit 4 (uint high) OR uint low) * 10"
  have sh0: "4 + unat shiftValue < ib" using sh succ by simp
  obtain d where d: "distance_mm ib high low shiftValue = Inr d"
    and v: "uint d = ?p div 2 ^ (4 + unat shiftValue)"
    using distance_mm_value [OF ib sh0] by blast
  obtain d' where d': "distance_mm ib high low shiftValue' = Inr d'"
    and v': "uint d' = ?p div 2 ^ (4 + unat shiftValue')"
    using distance_mm_value [OF ib sh] by blast
  have "4 + unat shiftValue' = Suc (4 + unat shiftValue)" using succ by simp
  then have "(2::int) ^ (4 + unat shiftValue') = 2 ^ (4 + unat shiftValue) * 2"
    by (simp only: power_Suc2)
  then have "?p div 2 ^ (4 + unat shiftValue') = ?p div 2 ^ (4 + unat shiftValue) div 2"
    by (simp only: zdiv_zmult2_eq [of 2])
  then have u: "uint d' = uint d div 2" using v v' by simp
  have "uint (d div 2) = uint d div 2" by (simp add: uint_div)
  then have "d' = d div 2" using u by (simp add: word_uint_eq_iff)
  with d d' u show ?thesis by blast
qed

theorem shift_increment_halves_witness:
  "(17::nat) \<le> 32 \<and> unat (2 :: 8 word) = unat (1 :: 8 word) + 1
   \<and> 4 + unat (2 :: 8 word) < (32::nat)
   \<and> distance_mm 32 0x27 0x00 1 = Inr 195 \<and> distance_mm 32 0x27 0x00 2 = Inr 97
   \<and> (97 :: 16 word) = 195 div 2"
proof -
  have h1: "(17::nat) \<le> 32" by simp
  have h2: "unat (2 :: 8 word) = unat (1 :: 8 word) + 1" by simp
  have h3: "4 + unat (2 :: 8 word) < (32::nat)" by simp
  have a: "distance_mm 32 0x27 0x00 1 = Inr 195" by code_simp
  have b: "distance_mm 32 0x27 0x00 2 = Inr 97" by code_simp
  from shift_increment_halves [OF h1 h2 h3, of "0x27" "0x00"] a b
  have "(97 :: 16 word) = 195 div 2" by simp
  with h1 h2 h3 a b show ?thesis by blast
qed

text \<open>
  For every shift value the claim fails: on a 32-bit \<open>int\<close> the shift value 27 gives
  the distance 0 for the bytes \<open>0x27, 0x00\<close>, but its successor 28 asks for a shift by
  32, which is undefined, so there is no distance equal to \<open>0 div 2\<close>.
\<close>

theorem shift_increment_halves_counterexample:
  "unat (28 :: 8 word) = unat (27 :: 8 word) + 1
   \<and> distance_mm 32 0x27 0x00 27 = Inr 0
   \<and> distance_mm 32 0x27 0x00 28 = Inl ShiftOutOfRange"
proof -
  have "unat (28 :: 8 word) = unat (27 :: 8 word) + 1" by simp
  moreover have "distance_mm 32 0x27 0x00 27 = Inr 0" by code_simp
  moreover have "distance_mm 32 0x27 0x00 28 = Inl ShiftOutOfRange" by code_simp
  ultimately show ?thesis by blast
qed

text \<open>
  Claim C9, amended. For every fixed shift value whose shift count \<open>4 + shift\<close> is
  smaller than the width of \<open>int\<close> (an \<open>int\<close> of more than 16 bits), the decode step
  computes a distance for every pair of bytes, and these distances are monotone in the
  raw value: if the raw value of \<open>ha, la\<close> is at most that of \<open>hb, lb\<close>, the
  distance of the first pair is at most that of the second.
\<close>

theorem distance_monotone_in_raw:
  assumes ib: "17 \<le> ib" and sh: "4 + unat shiftValue < ib"
    and le: "push_bit 4 (uint ha) OR uint la \<le> push_bit 4 (uint hb) OR uint lb"
  shows "\<exists>da db. distance_mm ib ha la shiftValue = Inr da
           \<and> distance_mm ib hb lb shiftValue = Inr db
           \<and> da \<le> db"
proof -
  obtain da where da: "distance_mm ib ha la shiftValue = Inr da"
    and va: "uint da = ((push_bit 4 (uint ha) OR uint la) * 10) div 2 ^ (4 + unat shiftValue)"
    using distance_mm_value [OF ib sh] by blast
  obtain db where db: "distance_mm ib hb lb shiftValue = Inr db"
    and vb: "uint db = ((push_bit 4 (uint hb) OR uint lb) * 10) div 2 ^ (4 + unat shiftValue)"
    using distance_mm_value [OF ib sh] by blast
  have "(push_bit 4 (uint ha) OR uint la) * 10 \<le> (push_bit 4 (uint hb) OR uint lb) * 10"
    using le by simp
  then have "uint da \<le> uint db"
    unfolding va vb by (rule zdiv_mono1) simp
  then have "da \<le> db" by (simp add: word_le_def)
  with da db show ?thesis by blast
qed

theorem distance_monotone_in_raw_witness:
  "(17::nat) \<le> 32 \<and> 4 + unat (2 :: 8 word) < (32::nat)
   \<and> push_bit 4 (uint (0x27 :: 8 word)) OR uint (0x00 :: 8 word)
       \<le> push_bit 4 (uint (0x27 :: 8 word)) OR uint (0x0C :: 8 word)
   \<and> distance_mm 32 0x27 0x00 2 = Inr 97 \<and> distance_mm 32 0x27 0x0C 2 = Inr 99
   \<and> (97 :: 16 word) \<le> 99"
proof -
  have h1: "(17::nat) \<le> 32" by simp
  have h2: "4 + unat (2 :: 8 word) < (32::nat)" by simp
  have h3: "push_bit 4 (uint (0x27 :: 8 word)) OR uint (0x00 :: 8 word)
       \<le> push_bit 4 (uint (0x27 :: 8 word)) OR uint (0x0C :: 8 word)"
    by (simp add: push_bit_eq_mult)
  have a: "distance_mm 32 0x27 0x00 2 = Inr 97" by code_simp
  have b: "distance_mm 32 0x27 0x0C 2 = Inr 99" by code_simp
  from distance_monotone_in_raw [OF h1 h2 h3] a b
  have "(97 :: 16 word) \<le> 99" by simp
  with h1 h2 h3 a b show ?thesis by blast
qed

text \<open>
  For every fixed shift value the claim fails: at the shift value 28 on a 32-bit
  \<open>int\<close> the shift by 32 is undefined, so for the raw values 1 and 2 there is no
  distance at all to compare, and the same holds at 255, the shift value a \<open>setup\<close>
  without reply leaves in the object.
\<close>

theorem distance_monotone_in_raw_counterexample:
  "push_bit 4 (uint (0x00 :: 8 word)) OR uint (0x01 :: 8 word)
     \<le> push_bit 4 (uint (0x00 :: 8 word)) OR uint (0x02 :: 8 word)
   \<and> distance_mm 32 0x00 0x01 28 = Inl ShiftOutOfRange
   \<and> distance_mm 32 0x00 0x02 28 = Inl ShiftOutOfRange
   \<and> distance_mm 32 0x00 0x01 255 = Inl ShiftOutOfRange
   \<and> distance_mm 32 0x00 0x02 255 = Inl ShiftOutOfRange"
proof -
  have "push_bit 4 (uint (0x00 :: 8 word)) OR uint (0x01 :: 8 word)
     \<le> push_bit 4 (uint (0x00 :: 8 word)) OR uint (0x02 :: 8 word)"
    by simp
  moreover have "distance_mm 32 0x00 0x01 28 = Inl ShiftOutOfRange" by code_simp
  moreover have "distance_mm 32 0x00 0x02 28 = Inl ShiftOutOfRange" by code_simp
  moreover have "distance_mm 32 0x00 0x01 255 = Inl ShiftOutOfRange" by code_simp
  moreover have "distance_mm 32 0x00 0x02 255 = Inl ShiftOutOfRange" by code_simp
  ultimately show ?thesis by blast
qed

section \<open>Setup without a reply\<close>

text \<open>
  Claim C3 says that \<open>_shiftValue\<close> keeps its prior value when the calibration
  request gets no data. The code does otherwise: with no byte delivered, \<open>setup\<close>
  prints the notice and then, unlike \<open>read\<close>, goes on; it assigns the result of
  \<open>Wire.read\<close> on the empty buffer, \<open>-1\<close>, to \<open>_shiftValue\<close>, which becomes 255.
  The prior value 2 is lost (for every sensor on one of the four channels:
  \<open>setup_no_reply_general\<close>).
\<close>

theorem setup_without_reply_overwrites_shift:
  "Infrared_setup 32 \<lparr>m_index = 0, m_shiftValue = 2\<rparr>
     \<lparr>trace = [], rx = [], replies = []\<rparr> =
   Inr (\<lparr>m_index = 0, m_shiftValue = 255\<rparr>,
        \<lparr>trace = [WireBegin, BeginTransmission 0x70, WireWrite 1, EndTransmission,
                  BeginTransmission 0x40, WireWrite 0x35, EndTransmission,
                  RequestFrom 0x40 1, SerialPrintln ''Wire not available'', WireRead],
           rx = [], replies = []\<rparr>)"
  by code_simp

section \<open>The fields of the object\<close>

text \<open>
  Claim C10. \<open>read\<close> returns the object as it received it, whichever way it returns
  (a distance, the sentinel after a short reply, the sentinel after an out-of-range
  distance); so does \<open>_setMultiplexer\<close>; \<open>setup\<close>, the only operation that assigns
  \<open>_shiftValue\<close>, leaves \<open>_index\<close> as it is; and \<open>_index\<close> is what the constructor
  received.
\<close>

theorem read_leaves_fields_unchanged:
  "(Infrared_read ib s w = Inr (r, s1, w1) \<longrightarrow>
      m_index s1 = m_index s \<and> m_shiftValue s1 = m_shiftValue s)
   \<and> (Infrared_setMultiplexer ib s w = Inr (s2, w2) \<longrightarrow>
      m_index s2 = m_index s \<and> m_shiftValue s2 = m_shiftValue s)
   \<and> (Infrared_setup ib s w = Inr (s3, w3) \<longrightarrow> m_index s3 = m_index s)
   \<and> m_index (Infrared index0 storage) = index0"
proof -
  have "m_index (Infrared index0 storage) = index0" by (simp add: Infrared_def)
  then show ?thesis
    using read_keeps_object [of ib s w r s1 w1] setMultiplexer_keeps_object [of ib s w s2 w2]
      setup_keeps_index [of ib s w s3 w3]
    by blast
qed

theorem read_leaves_fields_unchanged_witness:
  "Infrared_read 32 \<lparr>m_index = 3, m_shiftValue = 2\<rparr>
     \<lparr>trace = [], rx = [], replies = [[0x27, 0]]\<rparr> =
   Inr (97, \<lparr>m_index = 3, m_shiftValue = 2\<rparr>,
        \<lparr>trace = [BeginTransmission 0x70, WireWrite 8, EndTransmission,
                  BeginTransmission 0x40, WireWrite 0x5E, EndTransmission,
                  RequestFrom 0x40 2, WireRead, WireRead],
           rx = [], replies = []\<rparr>)
   \<and> Infrared_setMultiplexer 32 \<lparr>m_index = 3, m_shiftValue = 2\<rparr>
       \<lparr>trace = [], rx = [], replies = [[0x27, 0]]\<rparr> =
     Inr (\<lparr>m_index = 3, m_shiftValue = 2\<rparr>,
          \<lparr>trace = [BeginTransmission 0x70, WireWrite 8, EndTransmission],
             rx = [], replies = [[0x27, 0]]\<rparr>)
   \<and> Infrared_setup 32 \<lparr>m_index = 3, m_shiftValue = 2\<rparr>
       \<lparr>trace = [], rx = [], replies = [[0x27, 0]]\<rparr> =
     Inr (\<lparr>m_index = 3, m_shiftValue = 0x27\<rparr>,
          \<lparr>trace = [WireBegin, BeginTransmission 0x70, WireWrite 8, EndTransmission,
                    BeginTransmission 0x40, WireWrite 0x35, EndTransmission,
                    RequestFrom 0x40 1, WireRead],
             rx = [], replies = []\<rparr>)
   \<and> m_index \<lparr>m_index = 3, m_shiftValue = 0x27 :: 8 word\<rparr> =
       m_index \<lparr>m_index = 3 :: 8 word, m_shiftValue = 2 :: 8 word\<rparr>
   \<and> m_index (Infrared 3 2) = 3"
proof -
  let ?s = "\<lparr>m_index = 3, m_shiftValue = 2\<rparr>"
  let ?w = "\<lparr>trace = [], rx = [], replies = [[0x27, 0]]\<rparr>"
  let ?w1 = "\<lparr>trace = [BeginTransmission 0x70, WireWrite 8, EndTransmission,
                  BeginTransmission 0x40, WireWrite 0x5E, EndTransmission,
                  RequestFrom 0x40 2, WireRead, WireRead],
           rx = [], replies = []\<rparr>"
  let ?w2 = "\<lparr>trace = [BeginTransmission 0x70, WireWrite 8, EndTransmission],
             rx = [], replies = [[0x27, 0]]\<rparr>"
  let ?s3 = "\<lparr>m_index = 3, m_shiftValue = 0x27\<rparr>"
  let ?w3 = "\<lparr>trace = [WireBegin, BeginTransmission 0x70, WireWrite 8, EndTransmission,
                    BeginTransmission 0x40, WireWrite 0x35, EndTransmission,
                    RequestFrom 0x40 1, WireRead],
             rx = [], replies = []\<rparr>"
  have h1: "Infrared_read 32 ?s ?w = Inr (97, ?s, ?w1)" by code_simp
  have h2: "Infrared_setMultiplexer 32 ?s ?w = Inr (?s, ?w2)" by code_simp
  have h3: "Infrared_setup 32 ?s ?w = Inr (?s3, ?w3)" by code_simp
  from h1 h2 h3
    read_leaves_fields_unchanged [of 32 ?s ?w 97 ?s ?w1 ?s ?w2 ?s3 ?w3 3 2]
  have "m_index ?s3 = m_index ?s \<and> m_index (Infrared 3 2) = 3" by blast
  with h1 h2 h3 show ?thesis by blast
qed

end
